theory Spec2Isabelle
  imports Complex_Main "HOL-Library.Sublist"
begin

section \<open>Data model\<close>

text \<open>
  Documents of the blogging platform as the controllers see them. An identifier
  (a MongoDB ObjectId) is modelled after casting, as its hexadecimal string; numbers
  are the integers that the JavaScript doubles hold, in the range where arithmetic
  on them is exact (below \<open>2^53\<close>).
\<close>

type_synonym oid = string

record comment =
  comment_id :: oid
  comment_author :: oid
  comment_content :: string

record post =
  post_id :: oid
  title :: string
  content :: string
  excerpt :: string
  featuredImage :: string
  author :: oid
  category :: oid
  tags :: "string list"
  status :: string
  views :: nat
  comments :: "comment list"
  likes :: "oid list"
  createdAt :: nat

text \<open>\<open>req.user\<close>, the identity that the authentication middleware attaches.\<close>

record caller =
  caller_id :: oid
  caller_role :: string

text \<open>
  \<open>new ErrorResponse(message, statusCode)\<close> handed to \<open>next\<close>; \<open>Thrown\<close> is an
  exception of the database layer, which the boundary handler renders as a generic 500.
\<close>

datatype failure = ErrorResponse string nat | Thrown string

section \<open>The post collection\<close>

text \<open>\<open>Post.findById(id)\<close>: the first document with that \<open>_id\<close>, or null.\<close>

definition findById :: "oid \<Rightarrow> post list \<Rightarrow> post option" where
  "findById i db = find (\<lambda>p. post_id p = i) db"

text \<open>\<open>post.save()\<close>: writes the document back over the stored one with its \<open>_id\<close>.\<close>

fun save :: "post \<Rightarrow> post list \<Rightarrow> post list" where
  "save p [] = []"
| "save p (q # qs) = (if post_id q = post_id p then p # qs else q # save p qs)"

section \<open>Like toggle\<close>

text \<open>\<open>Array.prototype.indexOf\<close>: \<open>None\<close> stands for \<open>-1\<close>.\<close>

fun indexOf :: "'a list \<Rightarrow> 'a \<Rightarrow> nat option" where
  "indexOf [] x = None"
| "indexOf (y # ys) x = (if y = x then Some 0 else map_option Suc (indexOf ys x))"

text \<open>\<open>xs.splice(i, 1)\<close>: removes the element at index \<open>i\<close>.\<close>

definition splice1 :: "nat \<Rightarrow> 'a list \<Rightarrow> 'a list" where
  "splice1 i xs = take i xs @ drop (Suc i) xs"

record like_response =
  likes_count :: nat
  isLiked :: bool

definition likePost :: "oid \<Rightarrow> caller \<Rightarrow> post list \<Rightarrow> (failure + like_response) \<times> post list" where
  "likePost pid usr db =
     (case findById pid db of
        None \<Rightarrow> (Inl (ErrorResponse ''Post not found'' 404), db)
      | Some post \<Rightarrow>
          let likeIndex = indexOf (likes post) (caller_id usr);
              post' = (case likeIndex of
                         None \<Rightarrow> post\<lparr>likes := likes post @ [caller_id usr]\<rparr>
                       | Some i \<Rightarrow> post\<lparr>likes := splice1 i (likes post)\<rparr>)
          in (Inr \<lparr>likes_count = length (likes post'), isLiked = (likeIndex = None)\<rparr>,
              save post' db))"

section \<open>Single post, comments, update and delete\<close>

text \<open>
  \<open>getPost\<close>: the population of author, category and comment authors only decorates
  the response and is left out; the stored document and the returned one carry the
  incremented counter.
\<close>

text \<open>
  \<open>x + 1\<close> on a JavaScript number that holds the non-negative integer \<open>x\<close>: the sum
  is exact below \<open>2^53\<close>; from there on it is rounded to the nearest number that a
  double can hold, a tie going to the even mantissa. (From \<open>2^53\<close> on, the doubles are
  the even integers, from \<open>2^54\<close> on multiples of four or more.)
\<close>

definition plus_one :: "nat \<Rightarrow> nat" where
  "plus_one x =
     (if x < 2 ^ 53 then x + 1
      else if x < 2 ^ 54 \<and> odd (x div 2) then x + 2
      else x)"

definition getPost :: "oid \<Rightarrow> post list \<Rightarrow> (failure + post) \<times> post list" where
  "getPost pid db =
     (case findById pid db of
        None \<Rightarrow> (Inl (ErrorResponse ''Post not found'' 404), db)
      | Some post \<Rightarrow>
          let post' = post\<lparr>views := plus_one (views post)\<rparr>
          in (Inr post', save post' db))"

text \<open>
  Modelled from the spec: the request body (validation/postValidation and models/Post
  are not among the sources). The controllers hand \<open>req.body\<close> whole to the
  database layer, so the body may carry any field of a post; an absent key is
  \<open>None\<close>. The validator is a parameter: it returns the message of the first
  violation, or \<open>None\<close>.
\<close>

record post_body =
  b_title :: "string option"
  b_content :: "string option"
  b_excerpt :: "string option"
  b_featuredImage :: "string option"
  b_author :: "oid option"
  b_category :: "oid option"
  b_tags :: "string list option"
  b_status :: "string option"
  b_views :: "nat option"
  b_comments :: "comment list option"
  b_likes :: "oid list option"

type_synonym post_validator = "post_body \<Rightarrow> string option"

text \<open>\<open>if (req.file) req.body.featuredImage = `/uploads/${req.file.filename}`\<close>.\<close>

definition with_upload :: "string option \<Rightarrow> post_body \<Rightarrow> post_body" where
  "with_upload file body =
     (case file of
        None \<Rightarrow> body
      | Some filename \<Rightarrow> body\<lparr>b_featuredImage := Some (''/uploads/'' @ filename)\<rparr>)"

definition or_else :: "'a option \<Rightarrow> 'a \<Rightarrow> 'a" where
  "or_else v d = (case v of None \<Rightarrow> d | Some x \<Rightarrow> x)"

text \<open>The update document of \<open>findByIdAndUpdate\<close>: every key of the body overwrites.\<close>

definition apply_body :: "post_body \<Rightarrow> post \<Rightarrow> post" where
  "apply_body body post =
     post\<lparr>title := or_else (b_title body) (title post),
          content := or_else (b_content body) (content post),
          excerpt := or_else (b_excerpt body) (excerpt post),
          featuredImage := or_else (b_featuredImage body) (featuredImage post),
          author := or_else (b_author body) (author post),
          category := or_else (b_category body) (category post),
          tags := or_else (b_tags body) (tags post),
          status := or_else (b_status body) (status post),
          views := or_else (b_views body) (views post),
          comments := or_else (b_comments body) (comments post),
          likes := or_else (b_likes body) (likes post)\<rparr>"

definition findByIdAndUpdate ::
    "oid \<Rightarrow> (post \<Rightarrow> post) \<Rightarrow> post list \<Rightarrow> post option \<times> post list" where
  "findByIdAndUpdate i upd db =
     (case findById i db of
        None \<Rightarrow> (None, db)
      | Some p \<Rightarrow> (Some (upd p), save (upd p) db))"

definition updatePost ::
    "post_validator \<Rightarrow> oid \<Rightarrow> caller \<Rightarrow> post_body \<Rightarrow> string option \<Rightarrow> post list
     \<Rightarrow> (failure + post option) \<times> post list" where
  "updatePost validatePost pid usr body file db =
     (case findById pid db of
        None \<Rightarrow> (Inl (ErrorResponse ''Post not found'' 404), db)
      | Some post \<Rightarrow>
          if author post \<noteq> caller_id usr \<and> caller_role usr \<noteq> ''admin''
          then (Inl (ErrorResponse ''Not authorized to update this post'' 403), db)
          else (case validatePost body of
                  Some message \<Rightarrow> (Inl (ErrorResponse message 400), db)
                | None \<Rightarrow>
                    (case findByIdAndUpdate pid (apply_body (with_upload file body)) db of
                       (post', db') \<Rightarrow> (Inr post', db'))))"






section \<open>Creating a post\<close>




section \<open>Requests against the post collection\<close>






section \<open>Listing posts\<close>

text \<open>
  The parsed query string. \<open>q_page\<close> and \<open>q_limit\<close> are the values of
  \<open>parseInt(req.query.page, 10)\<close> and \<open>parseInt(req.query.limit, 10)\<close>, with
  \<open>None\<close> for \<open>NaN\<close>; an absent parameter is \<open>None\<close>.
\<close>

record list_query =
  q_page :: "int option"
  q_limit :: "int option"
  q_search :: "string option"
  q_category :: "oid option"
  q_status :: "string option"

text \<open>\<open>n || d\<close> on a number: \<open>NaN\<close> and \<open>0\<close> are falsy.\<close>

definition or_default :: "int option \<Rightarrow> int \<Rightarrow> int" where
  "or_default v d = (case v of None \<Rightarrow> d | Some n \<Rightarrow> if n = 0 then d else n)"

text \<open>The truthiness of an optional string: \<open>undefined\<close> and \<open>''\<close> are falsy.\<close>

definition truthy :: "string option \<Rightarrow> bool" where
  "truthy v = (case v of None \<Rightarrow> False | Some s \<Rightarrow> s \<noteq> [])"

text \<open>The filter object that \<open>getPosts\<close> builds.\<close>

record mongo_query =
  or_regex :: "string option"
  category_is :: "oid option"
  status_is :: string

definition build_query :: "list_query \<Rightarrow> mongo_query" where
  "build_query q =
     \<lparr>or_regex = (if truthy (q_search q) then q_search q else None),
      category_is = (if truthy (q_category q) then q_category q else None),
      status_is = (if truthy (q_status q) then or_else (q_status q) [] else ''published'')\<rparr>"

subsection \<open>The regular expressions of the database\<close>

text \<open>
  \<open>$regex\<close> with \<open>$options: 'i'\<close> hands the search string to the database as a
  regular expression. The engine of the database is a parameter of the model: for a
  pattern it gives the predicate "the pattern matches somewhere in this text, letter
  case apart", or \<open>None\<close> when it rejects the pattern as ill-formed; the query then
  throws.
\<close>

type_synonym regex_engine = "string \<Rightarrow> (string \<Rightarrow> bool) option"

text \<open>
  The predicate on documents that a filter object denotes: the plain keys
  \<open>category\<close> and \<open>status\<close> compare for equality, \<open>$or\<close> asks for a match of
  the pattern in the title or in the content.
\<close>

definition plain_keys :: "mongo_query \<Rightarrow> post \<Rightarrow> bool" where
  "plain_keys mq p =
     ((case category_is mq of None \<Rightarrow> True | Some c \<Rightarrow> category p = c)
      \<and> status p = status_is mq)"

definition matcher :: "regex_engine \<Rightarrow> mongo_query \<Rightarrow> (post \<Rightarrow> bool) option" where
  "matcher rx mq =
     (case or_regex mq of
        None \<Rightarrow> Some (plain_keys mq)
      | Some s \<Rightarrow>
          (case rx s of
             None \<Rightarrow> None
           | Some found \<Rightarrow>
               Some (\<lambda>p. (found (title p) \<or> found (content p)) \<and> plain_keys mq p)))"

text \<open>\<open>Post.countDocuments(query)\<close>.\<close>

definition countDocuments :: "regex_engine \<Rightarrow> mongo_query \<Rightarrow> post list \<Rightarrow> failure + nat" where
  "countDocuments rx mq db =
     (case matcher rx mq of
        None \<Rightarrow> Inl (Thrown ''invalid regular expression'')
      | Some m \<Rightarrow> Inr (length (filter m db)))"

text \<open>
  \<open>.sort({ createdAt: -1 })\<close>: newest first. The database leaves the order of equal
  keys open; the model keeps them in stored order.
\<close>

definition sort_newest :: "post list \<Rightarrow> post list" where
  "sort_newest ps = sort_key (\<lambda>p. - int (createdAt p)) ps"

text \<open>
  \<open>.limit(l).skip(s)\<close> as the database applies them: the skip first, then the limit.
  A negative skip is rejected by the server; a negative limit is its absolute value,
  and a limit of zero means no limit.
\<close>

definition skip_limit :: "int \<Rightarrow> int \<Rightarrow> 'a list \<Rightarrow> failure + 'a list" where
  "skip_limit s l xs =
     (if s < 0 then Inl (Thrown ''skip must be non-negative'')
      else if l = 0 then Inr (drop (nat s) xs)
      else Inr (take (nat \<bar>l\<bar>) (drop (nat s) xs)))"

text \<open>\<open>Post.find(query).sort(...).limit(limit).skip(startIndex)\<close>.\<close>

definition find_posts ::
    "regex_engine \<Rightarrow> mongo_query \<Rightarrow> int \<Rightarrow> int \<Rightarrow> post list \<Rightarrow> failure + post list" where
  "find_posts rx mq l s db =
     (case matcher rx mq of
        None \<Rightarrow> Inl (Thrown ''invalid regular expression'')
      | Some m \<Rightarrow> skip_limit s l (sort_newest (filter m db)))"

record pagination =
  current :: int
  total :: int
  hasNext :: bool
  hasPrev :: bool

record posts_response =
  resp_count :: nat
  resp_total :: nat
  resp_pagination :: pagination
  resp_data :: "post list"

definition getPosts ::
    "regex_engine \<Rightarrow> list_query \<Rightarrow> post list \<Rightarrow> failure + posts_response" where
  "getPosts rx q db =
     (let page = or_default (q_page q) 1;
          limit = or_default (q_limit q) 10;
          startIndex = (page - 1) * limit;
          query = build_query q
      in case countDocuments rx query db of
           Inl e \<Rightarrow> Inl e
         | Inr n \<Rightarrow>
             (case find_posts rx query limit startIndex db of
                Inl e \<Rightarrow> Inl e
              | Inr posts \<Rightarrow>
                  Inr \<lparr>resp_count = length posts,
                       resp_total = n,
                       resp_pagination =
                         \<lparr>current = page,
                          total = \<lceil>real n / real_of_int limit\<rceil>,
                          hasNext = (page < \<lceil>real n / real_of_int limit\<rceil>),
                          hasPrev = (page > 1)\<rparr>,
                       resp_data = posts\<rparr>))"

text \<open>
  The numbers of \<open>getPosts\<close> are doubles in the code and integers here; the two agree
  as long as no value leaves the range in which doubles are exact on integers.
\<close>

definition exact :: "int \<Rightarrow> bool" where
  "exact n = (\<bar>n\<bar> \<le> 2 ^ 53)"

definition in_double_range :: "list_query \<Rightarrow> post list \<Rightarrow> bool" where
  "in_double_range q db =
     (exact (or_default (q_page q) 1) \<and> exact (or_default (q_limit q) 10) \<and>
      exact ((or_default (q_page q) 1 - 1) * or_default (q_limit q) 10) \<and>
      exact (int (length db)))"

subsection \<open>The simplest patterns\<close>

text \<open>
  What a regular expression engine does on the simplest patterns, matching without
  regard to letter case: an ordinary character stands for itself and the dot for any
  character but a line feed. A char is a byte, and letter case is that of the ASCII
  letters. Patterns with any other metacharacter are not interpreted here.
\<close>

datatype rx_atom = Lit char | Dot

definition metachars :: "char list" where
  "metachars = [CHR 0x5C, CHR ''^'', CHR ''$'', CHR ''.'', CHR ''['', CHR '']'', CHR ''|'',
                CHR ''('', CHR '')'', CHR ''?'', CHR ''*'', CHR ''+'', CHR ''{'', CHR ''}'']"

definition ordinary :: "char \<Rightarrow> bool" where
  "ordinary c = (c \<notin> set metachars)"

fun compile_rx :: "string \<Rightarrow> rx_atom list option" where
  "compile_rx [] = Some []"
| "compile_rx (c # cs) =
     (case compile_rx cs of
        None \<Rightarrow> None
      | Some r \<Rightarrow>
          if c = CHR ''.'' then Some (Dot # r)
          else if ordinary c then Some (Lit c # r)
          else None)"

text \<open>\<open>A\<close> to \<open>Z\<close> (codes 65 to 90) fold onto \<open>a\<close> to \<open>z\<close>.\<close>

definition lower :: "char \<Rightarrow> char" where
  "lower c =
     (if (65::nat) \<le> of_char c \<and> of_char c \<le> (90::nat)
      then char_of (of_char c + (32::nat)) else c)"

fun atom_matches :: "rx_atom \<Rightarrow> char \<Rightarrow> bool" where
  "atom_matches (Lit a) c = (lower a = lower c)"
| "atom_matches Dot c = (c \<noteq> CHR 0x0A)"

fun rx_prefix :: "rx_atom list \<Rightarrow> string \<Rightarrow> bool" where
  "rx_prefix [] t = True"
| "rx_prefix (a # r) [] = False"
| "rx_prefix (a # r) (c # cs) = (atom_matches a c \<and> rx_prefix r cs)"

fun rx_search :: "rx_atom list \<Rightarrow> string \<Rightarrow> bool" where
  "rx_search r [] = rx_prefix r []"
| "rx_search r (c # cs) = (rx_prefix r (c # cs) \<or> rx_search r cs)"

text \<open>
  An engine that knows the simplest patterns only and rejects the others, and the
  engines that agree with it wherever it answers.
\<close>

definition simplest_engine :: regex_engine where
  "simplest_engine s = map_option rx_search (compile_rx s)"




section \<open>Authentication\<close>

record user =
  user_id :: oid
  username :: string
  email :: string
  password :: string
  role :: string

record register_body =
  rb_username :: string
  rb_email :: string
  rb_password :: string

record login_body =
  lb_email :: string
  lb_password :: string

text \<open>
  What the controller takes from outside: the two validators (validation/authValidation),
  the password hashing and comparison of the user model (models/User), the token
  library and the two environment variables. A validator returns the message of the
  first violation, or \<open>None\<close>.
\<close>

record auth_env =
  validateRegister :: "register_body \<Rightarrow> string option"
  validateLogin :: "login_body \<Rightarrow> string option"
  hashPassword :: "string \<Rightarrow> string"
  matchPassword :: "user \<Rightarrow> string \<Rightarrow> bool"
  jwt_sign :: "oid \<Rightarrow> string \<Rightarrow> string \<Rightarrow> string"
  JWT_SECRET :: string
  JWT_EXPIRE :: string

definition generateToken :: "auth_env \<Rightarrow> oid \<Rightarrow> string" where
  "generateToken env i = jwt_sign env i (JWT_SECRET env) (JWT_EXPIRE env)"

text \<open>The JSON value handed to \<open>res.json\<close>, and the response that carries it.\<close>

datatype json =
    JNull
  | JBool bool
  | JNum int
  | JStr string
  | JArr "json list"
  | JObj "(string \<times> json) list"

record http_response =
  statusCode :: nat
  body :: json

text \<open>Every key that occurs in a JSON value, at any depth.\<close>

fun json_keys :: "json \<Rightarrow> string list" where
  "json_keys (JObj kvs) = concat (map (\<lambda>kv. fst kv # json_keys (snd kv)) kvs)"
| "json_keys (JArr vs) = concat (map json_keys vs)"
| "json_keys v = []"

text \<open>The object literal that both \<open>register\<close> and \<open>login\<close> send on success.\<close>

definition auth_payload :: "string \<Rightarrow> user \<Rightarrow> json" where
  "auth_payload token usr =
     JObj [(''success'', JBool True),
           (''data'', JObj [(''token'', JStr token),
                            (''user'', JObj [(''id'', JStr (user_id usr)),
                                             (''username'', JStr (username usr)),
                                             (''email'', JStr (email usr)),
                                             (''role'', JStr (role usr))])])]"

text \<open>
  Modelled from the spec: the document that \<open>User.create\<close> stores (models/User is not
  among the sources): the given name and address, the password hashed, the role
  \<open>user\<close>. Its \<open>_id\<close> comes from the database layer.
\<close>

definition User_create :: "auth_env \<Rightarrow> register_body \<Rightarrow> oid \<Rightarrow> user" where
  "User_create env b new_id =
     \<lparr>user_id = new_id, username = rb_username b, email = rb_email b,
      password = hashPassword env (rb_password b), role = ''user''\<rparr>"

definition register ::
    "auth_env \<Rightarrow> register_body \<Rightarrow> oid \<Rightarrow> user list \<Rightarrow> (failure + http_response) \<times> user list" where
  "register env b new_id db =
     (case validateRegister env b of
        Some message \<Rightarrow> (Inl (ErrorResponse message 400), db)
      | None \<Rightarrow>
          (case find (\<lambda>u. email u = rb_email b \<or> username u = rb_username b) db of
             Some existingUser \<Rightarrow> (Inl (ErrorResponse ''User already exists'' 400), db)
           | None \<Rightarrow>
               let usr = User_create env b new_id;
                   token = generateToken env (user_id usr)
               in (Inr \<lparr>statusCode = 201, body = auth_payload token usr\<rparr>, db @ [usr])))"

definition login :: "auth_env \<Rightarrow> login_body \<Rightarrow> user list \<Rightarrow> failure + http_response" where
  "login env b db =
     (case validateLogin env b of
        Some message \<Rightarrow> Inl (ErrorResponse message 400)
      | None \<Rightarrow>
          (case find (\<lambda>u. email u = lb_email b) db of
             None \<Rightarrow> Inl (ErrorResponse ''Invalid credentials'' 401)
           | Some usr \<Rightarrow>
               if \<not> matchPassword env usr (lb_password b)
               then Inl (ErrorResponse ''Invalid credentials'' 401)
               else Inr \<lparr>statusCode = 200,
                         body = auth_payload (generateToken env (user_id usr)) usr\<rparr>))"

text \<open>What a user document holds besides the password.\<close>

definition public_profile :: "user \<Rightarrow> oid \<times> string \<times> string \<times> string" where
  "public_profile u = (user_id u, username u, email u, role u)"

section \<open>Sample data\<close>

definition sample_post :: "oid \<Rightarrow> string \<Rightarrow> nat \<Rightarrow> post" where
  "sample_post i st t =
     \<lparr>post_id = i, title = ''Hello World'', content = ''First abc post'', excerpt = '''',
      featuredImage = '''', author = ''64b000000000000000000001'', category = ''64c000000000000000000001'', tags = [],
      status = st, views = 0, comments = [], likes = [''64b000000000000000000001'', ''64b000000000000000000002''], createdAt = t\<rparr>"

definition sample_db :: "post list" where
  "sample_db = [sample_post ''64a000000000000000000001'' ''published'' 1, sample_post ''64a000000000000000000002'' ''draft'' 2]"

definition alice :: caller where
  "alice = \<lparr>caller_id = ''64b000000000000000000001'', caller_role = ''user''\<rparr>"

definition mallory :: caller where
  "mallory = \<lparr>caller_id = ''64b000000000000000000009'', caller_role = ''user''\<rparr>"

definition empty_body :: post_body where
  "empty_body =
     \<lparr>b_title = None, b_content = None, b_excerpt = None, b_featuredImage = None,
      b_author = None, b_category = None, b_tags = None, b_status = None, b_views = None,
      b_comments = None, b_likes = None\<rparr>"



text \<open>A post that one user likes twice, and a post seen \<open>2^53\<close> times.\<close>

definition twice_liked :: post where
  "twice_liked = (sample_post ''64a000000000000000000003'' ''published'' 3)\<lparr>likes := [''64b000000000000000000001'', ''64b000000000000000000001'', ''64b000000000000000000002'']\<rparr>"

definition worn_post :: post where
  "worn_post = (sample_post ''64a000000000000000000004'' ''published'' 4)\<lparr>views := 9007199254740992\<rparr>"




definition sample_env :: auth_env where
  "sample_env =
     \<lparr>validateRegister = (\<lambda>b. if rb_password b = [] then Some ''password is required'' else None),
      validateLogin = (\<lambda>b. if lb_password b = [] then Some ''password is required'' else None),
      hashPassword = (\<lambda>pw. ''#'' @ pw),
      matchPassword = (\<lambda>u pw. password u = ''#'' @ pw),
      jwt_sign = (\<lambda>i secret expire. i @ ''.'' @ secret),
      JWT_SECRET = ''k'',
      JWT_EXPIRE = ''30d''\<rparr>"

definition sample_users :: "user list" where
  "sample_users =
     [\<lparr>user_id = ''64b000000000000000000001'', username = ''alice'', email = ''alice@x.io'',
       password = ''#secret'', role = ''user''\<rparr>]"

text \<open>Thirteen published posts and one draft.\<close>

definition thirteen_published :: "post list" where
  "thirteen_published =
     map (\<lambda>n. sample_post (replicate (24 - n) CHR ''a'' @ replicate n CHR ''b'') ''published'' n)
       [0..<13]
     @ [sample_post ''64a0000000000000000000dd'' ''draft'' 20]"

definition plain_query :: list_query where
  "plain_query = \<lparr>q_page = None, q_limit = None, q_search = None, q_category = None,
                   q_status = None\<rparr>"


definition returned_statuses ::
    "regex_engine \<Rightarrow> list_query \<Rightarrow> post list \<Rightarrow> string list option" where
  "returned_statuses rx q db =
     (case getPosts rx q db of Inl e \<Rightarrow> None | Inr r \<Rightarrow> Some (map status (resp_data r)))"

section \<open>Properties of the collection\<close>

lemma findById_Some_id: "findById i db = Some p \<Longrightarrow> post_id p = i"
  unfolding findById_def by (induction db) (auto split: if_splits)

lemma findById_save_same:
  "findById i db = Some p \<Longrightarrow> post_id p' = i \<Longrightarrow> findById i (save p' db) = Some p'"
  unfolding findById_def by (induction db) (auto split: if_splits)

lemma findById_save_other:
  "post_id p' \<noteq> i \<Longrightarrow> findById i (save p' db) = findById i db"
  unfolding findById_def by (induction db) auto

lemma indexOf_None_iff: "indexOf xs x = None \<longleftrightarrow> x \<notin> set xs"
  by (induction xs) auto

lemma indexOf_Some_splice1: "indexOf xs x = Some i \<Longrightarrow> splice1 i xs = remove1 x xs"
  unfolding splice1_def
  by (induction xs arbitrary: i) (auto split: if_splits)

lemma indexOf_Some_mem: "indexOf xs x = Some i \<Longrightarrow> x \<in> set xs"
  using indexOf_None_iff [of xs x] by auto

lemma likePost_found:
  assumes "findById pid db = Some p"
  shows "likePost pid u db =
     (let p' = (if caller_id u \<in> set (likes p)
                then p\<lparr>likes := remove1 (caller_id u) (likes p)\<rparr>
                else p\<lparr>likes := likes p @ [caller_id u]\<rparr>)
      in (Inr \<lparr>likes_count = length (likes p'), isLiked = (caller_id u \<notin> set (likes p))\<rparr>,
          save p' db))"
proof (cases "indexOf (likes p) (caller_id u)")
  case None
  moreover from None have "caller_id u \<notin> set (likes p)" by (simp add: indexOf_None_iff)
  ultimately show ?thesis using assms by (simp add: likePost_def Let_def)
next
  case (Some i)
  moreover from Some have "caller_id u \<in> set (likes p)" by (rule indexOf_Some_mem)
  moreover from Some have "splice1 i (likes p) = remove1 (caller_id u) (likes p)"
    by (rule indexOf_Some_splice1)
  ultimately show ?thesis using assms by (simp add: likePost_def Let_def)
qed

section \<open>Toggling a like\<close>

text \<open>
  C1, as stated, fails on a post whose likes array holds the user twice: a toggle
  splices one occurrence out, so two toggles in succession remove both, and the count
  goes from 3 to 1 instead of coming back to 3.
\<close>

theorem toggle_twice_counterexample:
  "findById ''64a000000000000000000003'' [twice_liked] = Some twice_liked \<and>
   likes twice_liked = [''64b000000000000000000001'', ''64b000000000000000000001'', ''64b000000000000000000002''] \<and>
   map likes (snd (likePost ''64a000000000000000000003'' alice (snd (likePost ''64a000000000000000000003'' alice [twice_liked])))) = [[''64b000000000000000000002'']]"
  by (simp add: likePost_def findById_def twice_liked_def sample_post_def alice_def Let_def
      splice1_def)

text \<open>
  C1, amended. On a post whose likes hold each user at most once, one toggle by \<open>u\<close> flips the
  membership of \<open>u\<close>: it removes the reference of \<open>u\<close> if present and appends it
  otherwise. Two toggles in succession give back the original set of likes and the
  original count, and leave every other field of the post as it was.
\<close>

theorem toggleLike_twice:
  assumes "findById pid db = Some p" and "distinct (likes p)"
  shows "\<exists>r1 db1 p1 r2 db2 p2.
           likePost pid u db = (Inr r1, db1) \<and> findById pid db1 = Some p1 \<and>
           likePost pid u db1 = (Inr r2, db2) \<and> findById pid db2 = Some p2 \<and>
           (caller_id u \<in> set (likes p) \<longrightarrow> likes p1 = remove1 (caller_id u) (likes p)) \<and>
           (caller_id u \<notin> set (likes p) \<longrightarrow> likes p1 = likes p @ [caller_id u]) \<and>
           (caller_id u \<in> set (likes p1) \<longleftrightarrow> caller_id u \<notin> set (likes p)) \<and>
           isLiked r1 = (caller_id u \<in> set (likes p1)) \<and>
           likes_count r1 = length (likes p1) \<and>
           set (likes p2) = set (likes p) \<and>
           length (likes p2) = length (likes p) \<and>
           likes_count r2 = length (likes p) \<and>
           isLiked r2 = (caller_id u \<in> set (likes p)) \<and>
           p2 = p\<lparr>likes := likes p2\<rparr>"
proof -
  let ?u = "caller_id u"
  have pid: "post_id p = pid" using assms(1) by (rule findById_Some_id)
  define p1 where "p1 = (if ?u \<in> set (likes p) then p\<lparr>likes := remove1 ?u (likes p)\<rparr>
                         else p\<lparr>likes := likes p @ [?u]\<rparr>)"
  define db1 where "db1 = save p1 db"
  define p2 where "p2 = (if ?u \<in> set (likes p1) then p1\<lparr>likes := remove1 ?u (likes p1)\<rparr>
                         else p1\<lparr>likes := likes p1 @ [?u]\<rparr>)"
  define db2 where "db2 = save p2 db1"
  have id1: "post_id p1 = pid" using pid by (simp add: p1_def)
  have id2: "post_id p2 = pid" using id1 by (simp add: p2_def)
  have f1: "findById pid db1 = Some p1"
    unfolding db1_def using assms(1) id1 by (rule findById_save_same)
  have f2: "findById pid db2 = Some p2"
    unfolding db2_def using f1 id2 by (rule findById_save_same)
  have l1: "likePost pid u db =
      (Inr \<lparr>likes_count = length (likes p1), isLiked = (?u \<notin> set (likes p))\<rparr>, db1)"
    using likePost_found [OF assms(1), of u] by (simp add: Let_def p1_def db1_def)
  have l2: "likePost pid u db1 =
      (Inr \<lparr>likes_count = length (likes p2), isLiked = (?u \<notin> set (likes p1))\<rparr>, db2)"
    using likePost_found [OF f1, of u] by (simp add: Let_def p2_def db2_def)
  have flip: "?u \<in> set (likes p1) \<longleftrightarrow> ?u \<notin> set (likes p)"
    using assms(2) by (auto simp: p1_def)
  have set2: "set (likes p2) = set (likes p)"
    using assms(2) by (auto simp: p2_def p1_def)
  have len2: "length (likes p2) = length (likes p)"
  proof (cases "?u \<in> set (likes p)")
    case True
    then have "0 < length (likes p)" by (cases "likes p") auto
    with True assms(2) show ?thesis by (simp add: p2_def p1_def length_remove1)
  next
    case False
    then show ?thesis by (simp add: p2_def p1_def length_remove1)
  qed
  have rest: "p2 = p\<lparr>likes := likes p2\<rparr>"
    by (simp add: p2_def p1_def)
  show ?thesis
    using l1 l2 f1 f2 flip set2 len2 rest by (auto simp: p1_def)
qed

theorem toggleLike_twice_witness:
  "findById ''64a000000000000000000001'' sample_db = Some (sample_post ''64a000000000000000000001'' ''published'' 1) \<and>
   distinct (likes (sample_post ''64a000000000000000000001'' ''published'' 1)) \<and>
   (\<exists>p2. findById ''64a000000000000000000001'' (snd (likePost ''64a000000000000000000001'' alice (snd (likePost ''64a000000000000000000001'' alice sample_db)))) = Some p2 \<and>
         set (likes p2) = {''64b000000000000000000001'', ''64b000000000000000000002''} \<and> length (likes p2) = 2)"
proof -
  have h1: "findById ''64a000000000000000000001'' sample_db = Some (sample_post ''64a000000000000000000001'' ''published'' 1)"
    by (simp add: findById_def sample_db_def sample_post_def)
  have h2: "distinct (likes (sample_post ''64a000000000000000000001'' ''published'' 1))"
    by (simp add: sample_post_def)
  have h3: "likes (sample_post ''64a000000000000000000001'' ''published'' 1) = [''64b000000000000000000001'', ''64b000000000000000000002'']"
    by (simp add: sample_post_def)
  from toggleLike_twice [OF h1 h2, of alice] h3 show ?thesis
    using h1 h2 by fastforce
qed

section \<open>Fetching a post\<close>

lemma save_split:
  "findById i db = Some p \<Longrightarrow> post_id p' = i \<Longrightarrow>
   \<exists>pre suf. db = pre @ p # suf \<and> (\<forall>q\<in>set pre. post_id q \<noteq> i) \<and> save p' db = pre @ p' # suf"
proof (induction db)
  case Nil
  then show ?case by (simp add: findById_def)
next
  case (Cons q qs)
  show ?case
  proof (cases "post_id q = i")
    case True
    with Cons.prems have "q = p" by (simp add: findById_def)
    with True Cons.prems(2) have "q # qs = [] @ p # qs \<and> (\<forall>x\<in>set []. post_id x \<noteq> i) \<and> save p' (q # qs) = [] @ p' # qs"
      by simp
    then show ?thesis by blast
  next
    case False
    with Cons.prems have "findById i qs = Some p" by (simp add: findById_def)
    from Cons.IH [OF this Cons.prems(2)] obtain pre suf where
      "qs = pre @ p # suf" "\<forall>x\<in>set pre. post_id x \<noteq> i" "save p' qs = pre @ p' # suf" by blast
    with False Cons.prems(2) have "q # qs = (q # pre) @ p # suf \<and> (\<forall>x\<in>set (q # pre). post_id x \<noteq> i)
        \<and> save p' (q # qs) = (q # pre) @ p' # suf"
      by simp
    then show ?thesis by blast
  qed
qed

lemma plus_one_exact: "x < 2 ^ 53 \<Longrightarrow> plus_one x = x + 1"
  by (simp add: plus_one_def)

text \<open>
  C6, as stated, fails on a counter that has reached \<open>2^53\<close>: the counter is a
  double, and adding one to \<open>2^53\<close> gives \<open>2^53\<close> again, so the fetch returns and
  stores the post with its counter as it was.
\<close>

theorem views_stuck_counterexample:
  "views worn_post = 9007199254740992 \<and>
   getPost ''64a000000000000000000004'' [worn_post] = (Inr worn_post, [worn_post])"
  by (simp add: getPost_def findById_def worn_post_def sample_post_def plus_one_def Let_def)

text \<open>
  C6, amended. \<open>getPost\<close> on an identifier that no post carries fails with the 404
  error "Post not found" and leaves the collection as it was. On a stored post it
  returns that post with its view counter raised by one in double arithmetic, which is
  exactly one more as long as the counter is below \<open>2^53\<close>, and every other field as
  before; it stores that same document and replaces nothing else: the collection
  differs in that one position only.
\<close>

theorem getPost_effect:
  "(findById pid db = None \<longrightarrow> getPost pid db = (Inl (ErrorResponse ''Post not found'' 404), db)) \<and>
   (\<forall>p. findById pid db = Some p \<longrightarrow>
      (\<exists>p' db'. getPost pid db = (Inr p', db') \<and>
         p' = p\<lparr>views := plus_one (views p)\<rparr> \<and>
         (views p < 2 ^ 53 \<longrightarrow> views p' = views p + 1) \<and>
         findById pid db' = Some p' \<and>
         (\<forall>i. i \<noteq> pid \<longrightarrow> findById i db' = findById i db) \<and>
         (\<exists>pre suf. db = pre @ p # suf \<and> (\<forall>q\<in>set pre. post_id q \<noteq> pid) \<and> db' = pre @ p' # suf)))"
proof (intro conjI allI impI)
  assume "findById pid db = None"
  then show "getPost pid db = (Inl (ErrorResponse ''Post not found'' 404), db)"
    by (simp add: getPost_def)
next
  fix p assume f: "findById pid db = Some p"
  let ?p' = "p\<lparr>views := plus_one (views p)\<rparr>"
  have pid: "post_id ?p' = pid" using findById_Some_id [OF f] by simp
  have g: "getPost pid db = (Inr ?p', save ?p' db)"
    using f by (simp add: getPost_def Let_def)
  have a: "findById pid (save ?p' db) = Some ?p'"
    using f pid by (rule findById_save_same)
  have b: "\<forall>i. i \<noteq> pid \<longrightarrow> findById i (save ?p' db) = findById i db"
    using pid findById_save_other [of ?p' _ db] by auto
  have c: "\<exists>pre suf. db = pre @ p # suf \<and> (\<forall>q\<in>set pre. post_id q \<noteq> pid) \<and> save ?p' db = pre @ ?p' # suf"
    using f pid by (rule save_split)
  have e: "views p < 2 ^ 53 \<longrightarrow> views ?p' = views p + 1"
    by (simp add: plus_one_exact)
  show "\<exists>p' db'. getPost pid db = (Inr p', db') \<and>
         p' = p\<lparr>views := plus_one (views p)\<rparr> \<and>
         (views p < 2 ^ 53 \<longrightarrow> views p' = views p + 1) \<and>
         findById pid db' = Some p' \<and>
         (\<forall>i. i \<noteq> pid \<longrightarrow> findById i db' = findById i db) \<and>
         (\<exists>pre suf. db = pre @ p # suf \<and> (\<forall>q\<in>set pre. post_id q \<noteq> pid) \<and> db' = pre @ p' # suf)"
    using g a b c e by blast
qed

theorem getPost_effect_witness:
  "findById ''64a0000000000000000000ff'' sample_db = None \<and>
   getPost ''64a0000000000000000000ff'' sample_db = (Inl (ErrorResponse ''Post not found'' 404), sample_db) \<and>
   findById ''64a000000000000000000002'' sample_db = Some (sample_post ''64a000000000000000000002'' ''draft'' 2) \<and>
   (\<exists>p' db'. getPost ''64a000000000000000000002'' sample_db = (Inr p', db') \<and> views p' = 1 \<and>
      db' = [sample_post ''64a000000000000000000001'' ''published'' 1, p'])"
proof -
  have h1: "findById ''64a0000000000000000000ff'' sample_db = None"
    by (simp add: findById_def sample_db_def sample_post_def)
  have h2: "findById ''64a000000000000000000002'' sample_db = Some (sample_post ''64a000000000000000000002'' ''draft'' 2)"
    by (simp add: findById_def sample_db_def sample_post_def)
  have v: "views (sample_post ''64a000000000000000000002'' ''draft'' 2) = 0" by (simp add: sample_post_def)
  from getPost_effect [of "''64a0000000000000000000ff''" sample_db] h1
  have a: "getPost ''64a0000000000000000000ff'' sample_db = (Inl (ErrorResponse ''Post not found'' 404), sample_db)"
    by blast
  from getPost_effect [of "''64a000000000000000000002''" sample_db] h2
  obtain p' db' where g: "getPost ''64a000000000000000000002'' sample_db = (Inr p', db')"
    and p': "p' = (sample_post ''64a000000000000000000002'' ''draft'' 2)\<lparr>views := plus_one (views (sample_post ''64a000000000000000000002'' ''draft'' 2))\<rparr>"
    by blast
  from g p' have "db' = [sample_post ''64a000000000000000000001'' ''published'' 1, p']"
    by (auto simp: getPost_def Let_def findById_def sample_db_def sample_post_def)
  with g p' v h1 h2 a show ?thesis by (simp add: plus_one_def)
qed

section \<open>Updating a post\<close>

text \<open>
  C10. \<open>updatePost\<close> looks for the post first (404), then checks ownership (403),
  then validates the body (400): a caller who is neither the author nor an admin gets
  the 403 error whatever the validator says about the body. Every error leaves the
  collection unchanged.
\<close>

theorem updatePost_error_order:
  "(findById pid db = None \<longrightarrow>
      updatePost v pid u b f db = (Inl (ErrorResponse ''Post not found'' 404), db)) \<and>
   (\<forall>p. findById pid db = Some p \<and> author p \<noteq> caller_id u \<and> caller_role u \<noteq> ''admin'' \<longrightarrow>
      updatePost v pid u b f db = (Inl (ErrorResponse ''Not authorized to update this post'' 403), db)) \<and>
   (\<forall>p m. findById pid db = Some p \<and> (author p = caller_id u \<or> caller_role u = ''admin'') \<and>
          v b = Some m \<longrightarrow>
      updatePost v pid u b f db = (Inl (ErrorResponse m 400), db)) \<and>
   (\<forall>p. findById pid db = Some p \<and> (author p = caller_id u \<or> caller_role u = ''admin'') \<and>
          v b = None \<longrightarrow>
      (\<exists>r db'. updatePost v pid u b f db = (Inr r, db'))) \<and>
   (\<forall>e db'. updatePost v pid u b f db = (Inl e, db') \<longrightarrow> db' = db)"
  by (auto simp: updatePost_def findByIdAndUpdate_def split: option.splits if_splits prod.splits)

theorem updatePost_error_order_witness:
  "findById ''64a0000000000000000000ff'' sample_db = None \<and>
   updatePost (\<lambda>b. Some ''bad'') ''64a0000000000000000000ff'' mallory empty_body None sample_db =
     (Inl (ErrorResponse ''Post not found'' 404), sample_db) \<and>
   findById ''64a000000000000000000001'' sample_db = Some (sample_post ''64a000000000000000000001'' ''published'' 1) \<and>
   author (sample_post ''64a000000000000000000001'' ''published'' 1) \<noteq> caller_id mallory \<and>
   caller_role mallory \<noteq> ''admin'' \<and>
   updatePost (\<lambda>b. Some ''bad'') ''64a000000000000000000001'' mallory empty_body None sample_db =
     (Inl (ErrorResponse ''Not authorized to update this post'' 403), sample_db) \<and>
   updatePost (\<lambda>b. None) ''64a000000000000000000001'' mallory empty_body None sample_db =
     (Inl (ErrorResponse ''Not authorized to update this post'' 403), sample_db) \<and>
   author (sample_post ''64a000000000000000000001'' ''published'' 1) = caller_id alice \<and>
   updatePost (\<lambda>b. Some ''bad'') ''64a000000000000000000001'' alice empty_body None sample_db =
     (Inl (ErrorResponse ''bad'' 400), sample_db) \<and>
   (\<exists>r db'. updatePost (\<lambda>b. None) ''64a000000000000000000001'' alice empty_body None sample_db = (Inr r, db'))"
proof -
  have n: "findById ''64a0000000000000000000ff'' sample_db = None"
    by (simp add: findById_def sample_db_def sample_post_def)
  have f: "findById ''64a000000000000000000001'' sample_db = Some (sample_post ''64a000000000000000000001'' ''published'' 1)"
    by (simp add: findById_def sample_db_def sample_post_def)
  have m: "author (sample_post ''64a000000000000000000001'' ''published'' 1) \<noteq> caller_id mallory"
    "caller_role mallory \<noteq> ''admin''"
    by (simp_all add: sample_post_def mallory_def)
  have a: "author (sample_post ''64a000000000000000000001'' ''published'' 1) = caller_id alice"
    by (simp add: sample_post_def alice_def)
  from updatePost_error_order [of "''64a0000000000000000000ff''" sample_db "\<lambda>b. Some ''bad''" mallory empty_body None] n
  have 1: "updatePost (\<lambda>b. Some ''bad'') ''64a0000000000000000000ff'' mallory empty_body None sample_db =
     (Inl (ErrorResponse ''Post not found'' 404), sample_db)" by blast
  from updatePost_error_order [of "''64a000000000000000000001''" sample_db "\<lambda>b. Some ''bad''" mallory empty_body None] f m
  have 2: "updatePost (\<lambda>b. Some ''bad'') ''64a000000000000000000001'' mallory empty_body None sample_db =
     (Inl (ErrorResponse ''Not authorized to update this post'' 403), sample_db)" by blast
  from updatePost_error_order [of "''64a000000000000000000001''" sample_db "\<lambda>b. None" mallory empty_body None] f m
  have 3: "updatePost (\<lambda>b. None) ''64a000000000000000000001'' mallory empty_body None sample_db =
     (Inl (ErrorResponse ''Not authorized to update this post'' 403), sample_db)" by blast
  from updatePost_error_order [of "''64a000000000000000000001''" sample_db "\<lambda>b. Some ''bad''" alice empty_body None] f a
  have 4: "updatePost (\<lambda>b. Some ''bad'') ''64a000000000000000000001'' alice empty_body None sample_db =
     (Inl (ErrorResponse ''bad'' 400), sample_db)" by blast
  from updatePost_error_order [of "''64a000000000000000000001''" sample_db "\<lambda>b. None" alice empty_body None] f a
  have 5: "\<exists>r db'. updatePost (\<lambda>b. None) ''64a000000000000000000001'' alice empty_body None sample_db = (Inr r, db')"
    by blast
  from n f m a 1 2 3 4 5 show ?thesis by simp
qed

section \<open>The likes of a post hold each user once\<close>
























section \<open>Login failures\<close>

text \<open>
  C4. A login with an address that no stored user has, and a login with a stored
  address and a password that does not match, both fail. When the bodies pass
  \<open>validateLogin\<close> both are the same 401 error "Invalid credentials"; for one and the
  same body the two results are equal in every case, so nothing in the result tells
  the two causes apart.
\<close>

theorem login_failures_identical:
  assumes "find (\<lambda>u. email u = lb_email b1) db1 = None"
    and "find (\<lambda>u. email u = lb_email b2) db2 = Some usr"
    and "\<not> matchPassword env usr (lb_password b2)"
  shows "(\<exists>e. login env b1 db1 = Inl e) \<and> (\<exists>e. login env b2 db2 = Inl e) \<and>
         (validateLogin env b1 = None \<and> validateLogin env b2 = None \<longrightarrow>
            login env b1 db1 = Inl (ErrorResponse ''Invalid credentials'' 401) \<and>
            login env b2 db2 = Inl (ErrorResponse ''Invalid credentials'' 401)) \<and>
         (b1 = b2 \<longrightarrow> login env b1 db1 = login env b2 db2)"
  using assms by (auto simp: login_def split: option.splits)

theorem login_failures_identical_witness:
  "find (\<lambda>u. email u = lb_email \<lparr>lb_email = ''nobody@x.io'', lb_password = ''secret''\<rparr>) sample_users = None \<and>
   find (\<lambda>u. email u = lb_email \<lparr>lb_email = ''alice@x.io'', lb_password = ''wrong''\<rparr>) sample_users
     = Some (hd sample_users) \<and>
   \<not> matchPassword sample_env (hd sample_users) ''wrong'' \<and>
   validateLogin sample_env \<lparr>lb_email = ''nobody@x.io'', lb_password = ''secret''\<rparr> = None \<and>
   validateLogin sample_env \<lparr>lb_email = ''alice@x.io'', lb_password = ''wrong''\<rparr> = None \<and>
   login sample_env \<lparr>lb_email = ''nobody@x.io'', lb_password = ''secret''\<rparr> sample_users
     = Inl (ErrorResponse ''Invalid credentials'' 401) \<and>
   login sample_env \<lparr>lb_email = ''alice@x.io'', lb_password = ''wrong''\<rparr> sample_users
     = Inl (ErrorResponse ''Invalid credentials'' 401)"
proof -
  let ?b1 = "\<lparr>lb_email = ''nobody@x.io'', lb_password = ''secret''\<rparr>"
  let ?b2 = "\<lparr>lb_email = ''alice@x.io'', lb_password = ''wrong''\<rparr>"
  have h1: "find (\<lambda>u. email u = lb_email ?b1) sample_users = None"
    by (simp add: sample_users_def)
  have h2: "find (\<lambda>u. email u = lb_email ?b2) sample_users = Some (hd sample_users)"
    by (simp add: sample_users_def)
  have h3: "\<not> matchPassword sample_env (hd sample_users) (lb_password ?b2)"
    by (simp add: sample_users_def sample_env_def)
  have v: "validateLogin sample_env ?b1 = None" "validateLogin sample_env ?b2 = None"
    by (simp_all add: sample_env_def)
  from login_failures_identical [OF h1 h2 h3] v h1 h2 h3 show ?thesis by simp
qed

section \<open>Registration conflicts\<close>

lemma find_None_conv: "find P xs = None \<longleftrightarrow> (\<forall>x\<in>set xs. \<not> P x)"
  by (induction xs) auto

lemma find_Some_mem: "find P xs = Some x \<Longrightarrow> x \<in> set xs \<and> P x"
  by (induction xs) (auto split: if_splits)

text \<open>
  C8. A registration whose body passes \<open>validateRegister\<close> fails with the error
  "User already exists" whenever a stored user has the same address or the same name;
  every failed registration leaves the users as they were; and after a successful
  registration, a second one with the same address (or name) fails in that way.
\<close>

theorem register_conflict:
  "(validateRegister env b = None \<and>
    (\<exists>u\<in>set db. email u = rb_email b \<or> username u = rb_username b) \<longrightarrow>
      register env b i db = (Inl (ErrorResponse ''User already exists'' 400), db)) \<and>
   (\<forall>e db'. register env b i db = (Inl e, db') \<longrightarrow> db' = db) \<and>
   (\<forall>r db' b' i'. register env b i db = (Inr r, db') \<and> validateRegister env b' = None \<and>
        (rb_email b' = rb_email b \<or> rb_username b' = rb_username b) \<longrightarrow>
      register env b' i' db' = (Inl (ErrorResponse ''User already exists'' 400), db'))"
proof (intro conjI allI impI)
  assume a: "validateRegister env b = None \<and>
    (\<exists>u\<in>set db. email u = rb_email b \<or> username u = rb_username b)"
  then have "find (\<lambda>u. email u = rb_email b \<or> username u = rb_username b) db \<noteq> None"
    by (simp add: find_None_conv)
  with a show "register env b i db = (Inl (ErrorResponse ''User already exists'' 400), db)"
    by (auto simp: register_def)
next
  fix e db' assume "register env b i db = (Inl e, db')"
  then show "db' = db"
    by (auto simp: register_def Let_def split: option.splits)
next
  fix r db' b' i'
  assume a: "register env b i db = (Inr r, db') \<and> validateRegister env b' = None \<and>
        (rb_email b' = rb_email b \<or> rb_username b' = rb_username b)"
  then have db': "db' = db @ [User_create env b i]"
    by (auto simp: register_def Let_def split: option.splits)
  have "email (User_create env b i) = rb_email b" "username (User_create env b i) = rb_username b"
    by (simp_all add: User_create_def)
  with a db' have "\<exists>u\<in>set db'. email u = rb_email b' \<or> username u = rb_username b'"
    by auto
  then have "find (\<lambda>u. email u = rb_email b' \<or> username u = rb_username b') db' \<noteq> None"
    by (simp add: find_None_conv)
  with a show "register env b' i' db' = (Inl (ErrorResponse ''User already exists'' 400), db')"
    by (auto simp: register_def)
qed

theorem register_conflict_witness:
  "validateRegister sample_env \<lparr>rb_username = ''bob'', rb_email = ''alice@x.io'', rb_password = ''pw''\<rparr> = None \<and>
   (\<exists>u\<in>set sample_users. email u = ''alice@x.io'' \<or> username u = ''bob'') \<and>
   register sample_env \<lparr>rb_username = ''bob'', rb_email = ''alice@x.io'', rb_password = ''pw''\<rparr> ''64b000000000000000000002'' sample_users
     = (Inl (ErrorResponse ''User already exists'' 400), sample_users) \<and>
   (\<exists>r db'. register sample_env \<lparr>rb_username = ''carol'', rb_email = ''carol@x.io'', rb_password = ''pw''\<rparr> ''64b000000000000000000002'' sample_users
        = (Inr r, db') \<and> length db' = 2 \<and>
      register sample_env \<lparr>rb_username = ''carol2'', rb_email = ''carol@x.io'', rb_password = ''pw2''\<rparr> ''64b000000000000000000003'' db'
        = (Inl (ErrorResponse ''User already exists'' 400), db'))"
proof -
  let ?dup = "\<lparr>rb_username = ''bob'', rb_email = ''alice@x.io'', rb_password = ''pw''\<rparr>"
  let ?carol = "\<lparr>rb_username = ''carol'', rb_email = ''carol@x.io'', rb_password = ''pw''\<rparr>"
  let ?again = "\<lparr>rb_username = ''carol2'', rb_email = ''carol@x.io'', rb_password = ''pw2''\<rparr>"
  have v: "validateRegister sample_env ?dup = None" "validateRegister sample_env ?again = None"
    by (simp_all add: sample_env_def)
  have ex: "\<exists>u\<in>set sample_users. email u = rb_email ?dup \<or> username u = rb_username ?dup"
    by (simp add: sample_users_def)
  have ok: "\<exists>r db'. register sample_env ?carol ''64b000000000000000000002'' sample_users = (Inr r, db') \<and> length db' = 2"
    by (simp add: register_def sample_env_def sample_users_def Let_def)
  then obtain r db' where r: "register sample_env ?carol ''64b000000000000000000002'' sample_users = (Inr r, db')"
    and len: "length db' = 2" by blast
  from register_conflict [of sample_env ?dup sample_users "''64b000000000000000000002''"] v(1) ex
  have 1: "register sample_env ?dup ''64b000000000000000000002'' sample_users
     = (Inl (ErrorResponse ''User already exists'' 400), sample_users)" by blast
  from register_conflict [of sample_env ?carol sample_users "''64b000000000000000000002''"] r v(2)
  have 2: "register sample_env ?again ''64b000000000000000000003'' db' = (Inl (ErrorResponse ''User already exists'' 400), db')"
    by force
  from v ex 1 2 r len show ?thesis by auto
qed

section \<open>Success responses carry no password\<close>

lemma json_keys_auth_payload:
  "json_keys (auth_payload t u) =
     [''success'', ''data'', ''token'', ''user'', ''id'', ''username'', ''email'', ''role'']"
  by (simp add: auth_payload_def)

lemma find_email_public:
  "map public_profile db1 = map public_profile db2 \<Longrightarrow>
   map_option public_profile (find (\<lambda>u. email u = e) db1) =
   map_option public_profile (find (\<lambda>u. email u = e) db2)"
proof (induction db1 arbitrary: db2)
  case Nil
  then show ?case by simp
next
  case (Cons a as)
  then obtain b bs where db2: "db2 = b # bs" and ab: "public_profile a = public_profile b"
    and rest: "map public_profile as = map public_profile bs"
    by (cases db2) auto
  from ab have "email a = email b" by (simp add: public_profile_def)
  with Cons.IH [OF rest] ab db2 show ?case by simp
qed

lemma auth_payload_public:
  "public_profile u1 = public_profile u2 \<Longrightarrow> auth_payload t u1 = auth_payload t u2"
  by (simp add: public_profile_def auth_payload_def)

lemma register_success:
  assumes "register env b i db = (Inr r, db')"
  shows "r = \<lparr>statusCode = 201, body = auth_payload (generateToken env i) (User_create env b i)\<rparr>"
  using assms by (auto simp: register_def Let_def User_create_def split: option.splits)

lemma login_success:
  assumes "login env lb db = Inr r"
  shows "\<exists>u. find (\<lambda>u. email u = lb_email lb) db = Some u \<and>
             r = \<lparr>statusCode = 200, body = auth_payload (generateToken env (user_id u)) u\<rparr>"
  using assms by (auto simp: login_def split: option.splits if_splits)

text \<open>
  C9. A success response of \<open>register\<close> or \<open>login\<close> is the object with the token
  and the fields id, username, email and role of the user, and no key of it is
  \<open>password\<close>. It does not depend on the password either: registering with another
  password or another hash function gives the same response, and two logins that
  succeed on user collections differing in the stored hashes only give the same response.
\<close>

theorem success_response_without_password:
  "(\<forall>r db'. register env b i db = (Inr r, db') \<longrightarrow>
      statusCode r = 201 \<and>
      body r = JObj [(''success'', JBool True),
                     (''data'', JObj [(''token'', JStr (generateToken env i)),
                                      (''user'', JObj [(''id'', JStr i),
                                                       (''username'', JStr (rb_username b)),
                                                       (''email'', JStr (rb_email b)),
                                                       (''role'', JStr ''user'')])])] \<and>
      ''password'' \<notin> set (json_keys (body r))) \<and>
   (\<forall>r. login env lb db = Inr r \<longrightarrow>
      (\<exists>u\<in>set db.
         statusCode r = 200 \<and>
         body r = JObj [(''success'', JBool True),
                        (''data'', JObj [(''token'', JStr (generateToken env (user_id u))),
                                         (''user'', JObj [(''id'', JStr (user_id u)),
                                                          (''username'', JStr (username u)),
                                                          (''email'', JStr (email u)),
                                                          (''role'', JStr (role u))])])]) \<and>
      ''password'' \<notin> set (json_keys (body r))) \<and>
   (\<forall>pw h. validateRegister env (b\<lparr>rb_password := pw\<rparr>) = validateRegister env b \<longrightarrow>
      fst (register (env\<lparr>hashPassword := h\<rparr>) (b\<lparr>rb_password := pw\<rparr>) i db) =
      fst (register env b i db)) \<and>
   (\<forall>db2 r r2. map public_profile db = map public_profile db2 \<and>
        login env lb db = Inr r \<and> login env lb db2 = Inr r2 \<longrightarrow> r = r2)"
proof (intro conjI allI impI)
  fix r db' assume a: "register env b i db = (Inr r, db')"
  from register_success [OF a]
  have r: "r = \<lparr>statusCode = 201, body = auth_payload (generateToken env i) (User_create env b i)\<rparr>" .
  then show "statusCode r = 201" by simp
  from r show "body r = JObj [(''success'', JBool True),
                     (''data'', JObj [(''token'', JStr (generateToken env i)),
                                      (''user'', JObj [(''id'', JStr i),
                                                       (''username'', JStr (rb_username b)),
                                                       (''email'', JStr (rb_email b)),
                                                       (''role'', JStr ''user'')])])]"
    by (simp add: auth_payload_def User_create_def)
  from r show "''password'' \<notin> set (json_keys (body r))"
    by (simp add: json_keys_auth_payload)
next
  fix r assume a: "login env lb db = Inr r"
  from login_success [OF a] obtain u where
    u: "find (\<lambda>u. email u = lb_email lb) db = Some u"
    and r: "r = \<lparr>statusCode = 200, body = auth_payload (generateToken env (user_id u)) u\<rparr>"
    by blast
  from u have "u \<in> set db" by (simp add: find_Some_mem)
  with r show "\<exists>u\<in>set db.
         statusCode r = 200 \<and>
         body r = JObj [(''success'', JBool True),
                        (''data'', JObj [(''token'', JStr (generateToken env (user_id u))),
                                         (''user'', JObj [(''id'', JStr (user_id u)),
                                                          (''username'', JStr (username u)),
                                                          (''email'', JStr (email u)),
                                                          (''role'', JStr (role u))])])]"
    by (auto simp: auth_payload_def)
  from r show "''password'' \<notin> set (json_keys (body r))"
    by (simp add: json_keys_auth_payload)
next
  fix pw h
  assume "validateRegister env (b\<lparr>rb_password := pw\<rparr>) = validateRegister env b"
  then show "fst (register (env\<lparr>hashPassword := h\<rparr>) (b\<lparr>rb_password := pw\<rparr>) i db) =
      fst (register env b i db)"
    by (simp add: register_def Let_def User_create_def generateToken_def auth_payload_def
        split: option.splits)
next
  fix db2 r r2
  assume a: "map public_profile db = map public_profile db2 \<and>
        login env lb db = Inr r \<and> login env lb db2 = Inr r2"
  then have m: "map public_profile db = map public_profile db2"
    and l1: "login env lb db = Inr r" and l2: "login env lb db2 = Inr r2" by simp_all
  from login_success [OF l1] obtain u where
    u: "find (\<lambda>u. email u = lb_email lb) db = Some u"
    and r: "r = \<lparr>statusCode = 200, body = auth_payload (generateToken env (user_id u)) u\<rparr>"
    by blast
  from login_success [OF l2] obtain u2 where
    u2: "find (\<lambda>u. email u = lb_email lb) db2 = Some u2"
    and r2: "r2 = \<lparr>statusCode = 200, body = auth_payload (generateToken env (user_id u2)) u2\<rparr>"
    by blast
  from find_email_public [OF m, of "lb_email lb"] u u2
  have p: "public_profile u = public_profile u2" by simp
  then have "user_id u = user_id u2" by (simp add: public_profile_def)
  with auth_payload_public [OF p] r r2 show "r = r2" by simp
qed

theorem success_response_without_password_witness:
  "(\<exists>r db'. register sample_env \<lparr>rb_username = ''carol'', rb_email = ''carol@x.io'', rb_password = ''pw''\<rparr>
        ''64b000000000000000000002'' sample_users = (Inr r, db') \<and>
      body r = JObj [(''success'', JBool True),
                     (''data'', JObj [(''token'', JStr ''64b000000000000000000002.k''),
                                      (''user'', JObj [(''id'', JStr ''64b000000000000000000002''),
                                                       (''username'', JStr ''carol''),
                                                       (''email'', JStr ''carol@x.io''),
                                                       (''role'', JStr ''user'')])])]) \<and>
   (\<exists>r. login sample_env \<lparr>lb_email = ''alice@x.io'', lb_password = ''secret''\<rparr> sample_users = Inr r \<and>
      json_keys (body r) =
        [''success'', ''data'', ''token'', ''user'', ''id'', ''username'', ''email'', ''role'']) \<and>
   fst (register (sample_env\<lparr>hashPassword := (\<lambda>pw. pw)\<rparr>)
          \<lparr>rb_username = ''carol'', rb_email = ''carol@x.io'', rb_password = ''other''\<rparr> ''64b000000000000000000002'' sample_users) =
   fst (register sample_env
          \<lparr>rb_username = ''carol'', rb_email = ''carol@x.io'', rb_password = ''pw''\<rparr> ''64b000000000000000000002'' sample_users) \<and>
   (\<exists>r. login (sample_env\<lparr>matchPassword := (\<lambda>u pw. pw = ''secret'')\<rparr>)
          \<lparr>lb_email = ''alice@x.io'', lb_password = ''secret''\<rparr>
          (map (\<lambda>u. u\<lparr>password := ''rehashed''\<rparr>) sample_users) = Inr r \<and>
        login (sample_env\<lparr>matchPassword := (\<lambda>u pw. pw = ''secret'')\<rparr>)
          \<lparr>lb_email = ''alice@x.io'', lb_password = ''secret''\<rparr> sample_users = Inr r)"
proof -
  let ?carol = "\<lparr>rb_username = ''carol'', rb_email = ''carol@x.io'', rb_password = ''pw''\<rparr>"
  let ?lb = "\<lparr>lb_email = ''alice@x.io'', lb_password = ''secret''\<rparr>"
  let ?env = "sample_env\<lparr>matchPassword := (\<lambda>u pw. pw = ''secret'')\<rparr>"
  let ?db2 = "map (\<lambda>u. u\<lparr>password := ''rehashed''\<rparr>) sample_users"
  have tok: "generateToken sample_env ''64b000000000000000000002'' = ''64b000000000000000000002.k''"
    by (simp add: generateToken_def sample_env_def)
  obtain r db' where reg: "register sample_env ?carol ''64b000000000000000000002'' sample_users = (Inr r, db')"
    by (simp add: register_def sample_env_def sample_users_def Let_def)
  obtain s where log: "login sample_env ?lb sample_users = Inr s"
    by (simp add: login_def sample_env_def sample_users_def)
  obtain t where log1: "login ?env ?lb sample_users = Inr t"
    by (simp add: login_def sample_env_def sample_users_def)
  obtain t2 where log2: "login ?env ?lb ?db2 = Inr t2"
    by (simp add: login_def sample_env_def sample_users_def)
  have pub: "map public_profile sample_users = map public_profile ?db2"
    by (simp add: sample_users_def public_profile_def)
  have val: "validateRegister sample_env (?carol\<lparr>rb_password := ''other''\<rparr>) =
             validateRegister sample_env ?carol"
    by (simp add: sample_env_def)
  note reg_thm = success_response_without_password
      [of sample_env ?carol "''64b000000000000000000002''" sample_users ?lb]
  note log_thm = success_response_without_password
      [of ?env ?carol "''64b000000000000000000002''" sample_users ?lb]
  note c1 = reg_thm [THEN conjunct1, rule_format, OF reg]
  note c2 = reg_thm [THEN conjunct2, THEN conjunct1, rule_format, OF log]
  note c3 = reg_thm [THEN conjunct2, THEN conjunct2, THEN conjunct1, rule_format, OF val]
  note c4 = log_thm [THEN conjunct2, THEN conjunct2, THEN conjunct2, rule_format]
  from c1 tok
  have 1: "body r = JObj [(''success'', JBool True),
                     (''data'', JObj [(''token'', JStr ''64b000000000000000000002.k''),
                                      (''user'', JObj [(''id'', JStr ''64b000000000000000000002''),
                                                       (''username'', JStr ''carol''),
                                                       (''email'', JStr ''carol@x.io''),
                                                       (''role'', JStr ''user'')])])]"
    by simp
  from c2 have 2: "json_keys (body s) =
        [''success'', ''data'', ''token'', ''user'', ''id'', ''username'', ''email'', ''role'']"
    by auto
  from c3
  have 3: "fst (register (sample_env\<lparr>hashPassword := (\<lambda>pw. pw)\<rparr>)
          (?carol\<lparr>rb_password := ''other''\<rparr>) ''64b000000000000000000002'' sample_users) =
        fst (register sample_env ?carol ''64b000000000000000000002'' sample_users)"
    by blast
  from c4 [of ?db2 t t2] pub log1 log2 have 4: "t = t2" by blast
  from reg 1 log 2 3 log1 log2 4 show ?thesis by simp
qed

section \<open>Listing: pagination\<close>

lemma or_default_nonzero: "d \<noteq> 0 \<Longrightarrow> or_default v d \<noteq> 0"
  by (simp add: or_default_def split: option.splits)

lemma length_sort_newest: "length (sort_newest ps) = length ps"
  by (simp add: sort_newest_def)

lemma set_sort_newest: "set (sort_newest ps) = set ps"
  by (simp add: sort_newest_def)

lemma getPosts_Inr:
  assumes "getPosts rx q db = Inr r"
  shows "\<exists>m. matcher rx (build_query q) = Some m \<and>
           0 \<le> (or_default (q_page q) 1 - 1) * or_default (q_limit q) 10 \<and>
           r = \<lparr>resp_count = length (take (nat \<bar>or_default (q_limit q) 10\<bar>)
                     (drop (nat ((or_default (q_page q) 1 - 1) * or_default (q_limit q) 10))
                        (sort_newest (filter m db)))),
                 resp_total = length (filter m db),
                 resp_pagination =
                   \<lparr>current = or_default (q_page q) 1,
                    total = \<lceil>real (length (filter m db)) / real_of_int (or_default (q_limit q) 10)\<rceil>,
                    hasNext = (or_default (q_page q) 1 <
                       \<lceil>real (length (filter m db)) / real_of_int (or_default (q_limit q) 10)\<rceil>),
                    hasPrev = (or_default (q_page q) 1 > 1)\<rparr>,
                 resp_data = take (nat \<bar>or_default (q_limit q) 10\<bar>)
                     (drop (nat ((or_default (q_page q) 1 - 1) * or_default (q_limit q) 10))
                        (sort_newest (filter m db)))\<rparr>"
proof -
  have l: "or_default (q_limit q) 10 \<noteq> 0" by (rule or_default_nonzero) simp
  from assms l show ?thesis
    by (auto simp: getPosts_def Let_def countDocuments_def find_posts_def skip_limit_def
             split: option.splits if_splits sum.splits)
qed

lemma getPosts_total:
  assumes "matcher rx (build_query q) = Some m"
    and "0 \<le> (or_default (q_page q) 1 - 1) * or_default (q_limit q) 10"
  shows "\<exists>r. getPosts rx q db = Inr r"
proof -
  have l: "or_default (q_limit q) 10 \<noteq> 0" by (rule or_default_nonzero) simp
  from assms l show ?thesis
    by (simp add: getPosts_def Let_def countDocuments_def find_posts_def skip_limit_def)
qed

lemma build_query_page [simp]: "build_query (q\<lparr>q_page := p\<rparr>) = build_query q"
  by (simp add: build_query_def)

lemma thirteen_by_six:
  assumes m: "matcher rx (build_query q) = Some m"
    and n: "length (filter m db) = 13"
    and l: "q_limit q = Some 6"
    and p: "k = 1 \<or> k = 2 \<or> k = 3"
  shows "\<exists>r. getPosts rx (q\<lparr>q_page := Some k\<rparr>) db = Inr r \<and>
             length (resp_data r) = (if k = 3 then 1 else 6) \<and>
             resp_count r = (if k = 3 then 1 else 6) \<and>
             total (resp_pagination r) = 3 \<and>
             hasNext (resp_pagination r) = (k \<noteq> 3)"
proof -
  let ?q = "q\<lparr>q_page := Some k\<rparr>"
  have pg: "or_default (q_page ?q) 1 = k" using p by (auto simp: or_default_def)
  have lm: "or_default (q_limit ?q) 10 = 6" using l by (simp add: or_default_def)
  have m': "matcher rx (build_query ?q) = Some m" using m by simp
  have "0 \<le> (or_default (q_page ?q) 1 - 1) * or_default (q_limit ?q) 10"
    unfolding pg lm using p by auto
  from getPosts_total [OF m' this] obtain r where r: "getPosts rx ?q db = Inr r" by blast
  from getPosts_Inr [OF r] m' n pg lm
  have form: "r = \<lparr>resp_count = length (take 6 (drop (nat ((k - 1) * 6)) (sort_newest (filter m db)))),
                 resp_total = 13,
                 resp_pagination =
                   \<lparr>current = k, total = \<lceil>real 13 / real_of_int 6\<rceil>,
                    hasNext = (k < \<lceil>real 13 / real_of_int 6\<rceil>), hasPrev = (k > 1)\<rparr>,
                 resp_data = take 6 (drop (nat ((k - 1) * 6)) (sort_newest (filter m db)))\<rparr>"
    by auto
  have c: "\<lceil>real 13 / real_of_int 6\<rceil> = 3" by simp
  have len: "length (take 6 (drop (nat ((k - 1) * 6)) (sort_newest (filter m db)))) =
      (if k = 3 then 1 else 6)"
    using p n by (auto simp: length_sort_newest)
  from form c len p r show ?thesis by auto
qed

text \<open>
  C2. For every engine of regular expressions and every query whose numbers stay in
  the range where doubles are exact: whenever \<open>getPosts\<close> answers, the total is the
  number of documents that match the filter, the items are a page cut out of those
  same documents (newest first), and the metadata are: the current page, the ceiling
  of total by limit as the number of pages, has-next exactly when the page is below
  that number, has-prev exactly when the page is above 1. It answers whenever the
  database accepts the pattern and the offset is not negative. With 13 matching posts
  and a limit of 6, pages 1 and 2 hold 6 items each and have a next page, page 3
  holds 1 item and has none.
\<close>

theorem getPosts_pagination:
  assumes "in_double_range q db"
  shows "(\<forall>r. getPosts rx q db = Inr r \<longrightarrow>
      (\<exists>m. matcher rx (build_query q) = Some m \<and>
         resp_total r = length (filter m db) \<and>
         resp_data r = take (nat \<bar>or_default (q_limit q) 10\<bar>)
                         (drop (nat ((or_default (q_page q) 1 - 1) * or_default (q_limit q) 10))
                            (sort_newest (filter m db))) \<and>
         resp_count r = length (resp_data r) \<and>
         current (resp_pagination r) = or_default (q_page q) 1 \<and>
         total (resp_pagination r) =
           \<lceil>real (resp_total r) / real_of_int (or_default (q_limit q) 10)\<rceil> \<and>
         hasNext (resp_pagination r) =
           (or_default (q_page q) 1 <
              \<lceil>real (resp_total r) / real_of_int (or_default (q_limit q) 10)\<rceil>) \<and>
         hasPrev (resp_pagination r) = (1 < or_default (q_page q) 1))) \<and>
   (\<forall>m. matcher rx (build_query q) = Some m \<and>
        0 \<le> (or_default (q_page q) 1 - 1) * or_default (q_limit q) 10 \<longrightarrow>
      (\<exists>r. getPosts rx q db = Inr r)) \<and>
   (\<forall>m. matcher rx (build_query q) = Some m \<and> length (filter m db) = 13 \<and> q_limit q = Some 6 \<longrightarrow>
      (\<exists>r1 r2 r3.
         getPosts rx (q\<lparr>q_page := Some 1\<rparr>) db = Inr r1 \<and>
           length (resp_data r1) = 6 \<and> hasNext (resp_pagination r1) \<and>
         getPosts rx (q\<lparr>q_page := Some 2\<rparr>) db = Inr r2 \<and>
           length (resp_data r2) = 6 \<and> hasNext (resp_pagination r2) \<and>
         getPosts rx (q\<lparr>q_page := Some 3\<rparr>) db = Inr r3 \<and>
           length (resp_data r3) = 1 \<and> \<not> hasNext (resp_pagination r3)))"
proof (intro conjI allI impI)
  fix r assume "getPosts rx q db = Inr r"
  from getPosts_Inr [OF this] obtain m where
    "matcher rx (build_query q) = Some m"
    "r = \<lparr>resp_count = length (take (nat \<bar>or_default (q_limit q) 10\<bar>)
                     (drop (nat ((or_default (q_page q) 1 - 1) * or_default (q_limit q) 10))
                        (sort_newest (filter m db)))),
                 resp_total = length (filter m db),
                 resp_pagination =
                   \<lparr>current = or_default (q_page q) 1,
                    total = \<lceil>real (length (filter m db)) / real_of_int (or_default (q_limit q) 10)\<rceil>,
                    hasNext = (or_default (q_page q) 1 <
                       \<lceil>real (length (filter m db)) / real_of_int (or_default (q_limit q) 10)\<rceil>),
                    hasPrev = (or_default (q_page q) 1 > 1)\<rparr>,
                 resp_data = take (nat \<bar>or_default (q_limit q) 10\<bar>)
                     (drop (nat ((or_default (q_page q) 1 - 1) * or_default (q_limit q) 10))
                        (sort_newest (filter m db)))\<rparr>"
    by blast
  then show "\<exists>m. matcher rx (build_query q) = Some m \<and>
         resp_total r = length (filter m db) \<and>
         resp_data r = take (nat \<bar>or_default (q_limit q) 10\<bar>)
                         (drop (nat ((or_default (q_page q) 1 - 1) * or_default (q_limit q) 10))
                            (sort_newest (filter m db))) \<and>
         resp_count r = length (resp_data r) \<and>
         current (resp_pagination r) = or_default (q_page q) 1 \<and>
         total (resp_pagination r) =
           \<lceil>real (resp_total r) / real_of_int (or_default (q_limit q) 10)\<rceil> \<and>
         hasNext (resp_pagination r) =
           (or_default (q_page q) 1 <
              \<lceil>real (resp_total r) / real_of_int (or_default (q_limit q) 10)\<rceil>) \<and>
         hasPrev (resp_pagination r) = (1 < or_default (q_page q) 1)"
    by simp
next
  fix m assume "matcher rx (build_query q) = Some m \<and>
        0 \<le> (or_default (q_page q) 1 - 1) * or_default (q_limit q) 10"
  then show "\<exists>r. getPosts rx q db = Inr r" using getPosts_total by blast
next
  fix m assume a: "matcher rx (build_query q) = Some m \<and> length (filter m db) = 13 \<and> q_limit q = Some 6"
  then have m: "matcher rx (build_query q) = Some m" and n: "length (filter m db) = 13"
    and l: "q_limit q = Some 6" by simp_all
  from thirteen_by_six [OF m n l, of 1] obtain r1 where
    1: "getPosts rx (q\<lparr>q_page := Some 1\<rparr>) db = Inr r1" "length (resp_data r1) = 6"
       "hasNext (resp_pagination r1)" by auto
  from thirteen_by_six [OF m n l, of 2] obtain r2 where
    2: "getPosts rx (q\<lparr>q_page := Some 2\<rparr>) db = Inr r2" "length (resp_data r2) = 6"
       "hasNext (resp_pagination r2)" by auto
  from thirteen_by_six [OF m n l, of 3] obtain r3 where
    3: "getPosts rx (q\<lparr>q_page := Some 3\<rparr>) db = Inr r3" "length (resp_data r3) = 1"
       "\<not> hasNext (resp_pagination r3)" by auto
  from 1 2 3 show "\<exists>r1 r2 r3.
         getPosts rx (q\<lparr>q_page := Some 1\<rparr>) db = Inr r1 \<and>
           length (resp_data r1) = 6 \<and> hasNext (resp_pagination r1) \<and>
         getPosts rx (q\<lparr>q_page := Some 2\<rparr>) db = Inr r2 \<and>
           length (resp_data r2) = 6 \<and> hasNext (resp_pagination r2) \<and>
         getPosts rx (q\<lparr>q_page := Some 3\<rparr>) db = Inr r3 \<and>
           length (resp_data r3) = 1 \<and> \<not> hasNext (resp_pagination r3)"
    by blast
qed

theorem getPosts_pagination_witness:
  "in_double_range (plain_query\<lparr>q_limit := Some 6\<rparr>) thirteen_published \<and>
   matcher simplest_engine (build_query (plain_query\<lparr>q_limit := Some 6\<rparr>)) =
     Some (plain_keys (build_query (plain_query\<lparr>q_limit := Some 6\<rparr>))) \<and>
   length (filter (plain_keys (build_query (plain_query\<lparr>q_limit := Some 6\<rparr>))) thirteen_published) = 13 \<and>
   q_limit (plain_query\<lparr>q_limit := Some 6\<rparr>) = Some 6 \<and>
   (\<exists>r1 r2 r3.
      getPosts simplest_engine (plain_query\<lparr>q_limit := Some 6, q_page := Some 1\<rparr>) thirteen_published = Inr r1 \<and>
        length (resp_data r1) = 6 \<and> hasNext (resp_pagination r1) \<and>
        resp_total r1 = 13 \<and> total (resp_pagination r1) = 3 \<and>
      getPosts simplest_engine (plain_query\<lparr>q_limit := Some 6, q_page := Some 2\<rparr>) thirteen_published = Inr r2 \<and>
        length (resp_data r2) = 6 \<and> hasNext (resp_pagination r2) \<and>
      getPosts simplest_engine (plain_query\<lparr>q_limit := Some 6, q_page := Some 3\<rparr>) thirteen_published = Inr r3 \<and>
        length (resp_data r3) = 1 \<and> \<not> hasNext (resp_pagination r3))"
proof -
  let ?q = "plain_query\<lparr>q_limit := Some 6\<rparr>"
  let ?m = "plain_keys (build_query ?q)"
  have rng: "in_double_range ?q thirteen_published"
    by (simp add: in_double_range_def exact_def or_default_def plain_query_def
        thirteen_published_def)
  have rng1: "in_double_range (?q\<lparr>q_page := Some 1\<rparr>) thirteen_published"
    by (simp add: in_double_range_def exact_def or_default_def plain_query_def
        thirteen_published_def)
  have m: "matcher simplest_engine (build_query ?q) = Some ?m"
    by (simp add: matcher_def build_query_def plain_query_def truthy_def)
  have n: "length (filter ?m thirteen_published) = 13"
    by code_simp
  have l: "q_limit ?q = Some 6" by simp
  have lim: "or_default (q_limit (?q\<lparr>q_page := Some 1\<rparr>)) 10 = 6"
    by (simp add: or_default_def)
  from getPosts_pagination [OF rng, where rx = simplest_engine, THEN conjunct2, THEN conjunct2,
      rule_format, of ?m] m n l
  obtain r1 r2 r3 where
    1: "getPosts simplest_engine (?q\<lparr>q_page := Some 1\<rparr>) thirteen_published = Inr r1"
       "length (resp_data r1) = 6" "hasNext (resp_pagination r1)"
    and 2: "getPosts simplest_engine (?q\<lparr>q_page := Some 2\<rparr>) thirteen_published = Inr r2"
       "length (resp_data r2) = 6" "hasNext (resp_pagination r2)"
    and 3: "getPosts simplest_engine (?q\<lparr>q_page := Some 3\<rparr>) thirteen_published = Inr r3"
       "length (resp_data r3) = 1" "\<not> hasNext (resp_pagination r3)"
    by blast
  from getPosts_pagination [OF rng1, where rx = simplest_engine, THEN conjunct1,
      rule_format, OF 1(1)] m n
  have t: "resp_total r1 = 13"
    and "total (resp_pagination r1) = \<lceil>real (resp_total r1) /
            real_of_int (or_default (q_limit (?q\<lparr>q_page := Some 1\<rparr>)) 10)\<rceil>"
    by auto
  with lim have p: "total (resp_pagination r1) = 3" by simp
  from rng m n l 1 2 3 t p show ?thesis by auto
qed

section \<open>Listing: the status filter\<close>

lemma matcher_plain_keys: "matcher rx mq = Some m \<Longrightarrow> m p \<Longrightarrow> plain_keys mq p"
  by (auto simp: matcher_def split: option.splits)

lemma set_page_subset: "set (take n (drop k xs)) \<subseteq> set xs"
  using set_take_subset [of n "drop k xs"] set_drop_subset [of k xs] by blast

lemma status_is_build_query:
  "status_is (build_query q) =
     (case q_status q of None \<Rightarrow> ''published'' | Some st \<Rightarrow> if st = [] then ''published'' else st)"
  by (simp add: build_query_def truthy_def or_else_def split: option.splits)

lemma getPosts_data_matches:
  assumes "getPosts rx q db = Inr r" and "p \<in> set (resp_data r)"
  shows "p \<in> set db \<and> plain_keys (build_query q) p"
proof -
  from getPosts_Inr [OF assms(1)] obtain m where
    m: "matcher rx (build_query q) = Some m"
    and d: "resp_data r = take (nat \<bar>or_default (q_limit q) 10\<bar>)
                     (drop (nat ((or_default (q_page q) 1 - 1) * or_default (q_limit q) 10))
                        (sort_newest (filter m db)))"
    by auto
  from assms(2) d have "p \<in> set (sort_newest (filter m db))"
    using set_page_subset by fastforce
  then have "p \<in> set db" "m p" by (simp_all add: set_sort_newest)
  with matcher_plain_keys [OF m] show ?thesis by simp
qed

text \<open>
  C5, as stated, fails for an explicit but empty status parameter: an empty string is
  falsy, the listing falls back to \<open>published\<close>, and the posts returned do not have
  the (empty) status that was asked for.
\<close>

theorem status_empty_counterexample:
  "q_status (plain_query\<lparr>q_status := Some ''''\<rparr>) = Some '''' \<and>
   returned_statuses simplest_engine (plain_query\<lparr>q_status := Some ''''\<rparr>) sample_db = Some [''published'']"
  by code_simp

text \<open>
  C5, amended. Every post that \<open>getPosts\<close> returns is a stored post; with no status
  parameter, or an empty one, its status is \<open>published\<close>; with a non-empty status
  parameter its status is exactly that parameter.
\<close>

theorem getPosts_status_filter:
  "\<forall>r. getPosts rx q db = Inr r \<longrightarrow>
     (\<forall>p\<in>set (resp_data r).
        p \<in> set db \<and>
        (q_status q = None \<or> q_status q = Some [] \<longrightarrow> status p = ''published'') \<and>
        (\<forall>st. q_status q = Some st \<and> st \<noteq> [] \<longrightarrow> status p = st))"
proof (intro allI impI ballI)
  fix r p assume "getPosts rx q db = Inr r" and "p \<in> set (resp_data r)"
  then have "p \<in> set db" and "plain_keys (build_query q) p"
    using getPosts_data_matches by blast+
  then show "p \<in> set db \<and>
        (q_status q = None \<or> q_status q = Some [] \<longrightarrow> status p = ''published'') \<and>
        (\<forall>st. q_status q = Some st \<and> st \<noteq> [] \<longrightarrow> status p = st)"
    by (auto simp: plain_keys_def status_is_build_query)
qed

theorem getPosts_status_filter_witness:
  "(\<exists>r. getPosts simplest_engine plain_query sample_db = Inr r \<and> q_status plain_query = None \<and>
        resp_data r = [sample_post ''64a000000000000000000001'' ''published'' 1] \<and>
        list_all (\<lambda>p. status p = ''published'') (resp_data r)) \<and>
   (\<exists>r. getPosts simplest_engine (plain_query\<lparr>q_status := Some ''draft''\<rparr>) sample_db = Inr r \<and>
        resp_data r = [sample_post ''64a000000000000000000002'' ''draft'' 2] \<and>
        list_all (\<lambda>p. status p = ''draft'') (resp_data r))"
proof -
  have lim: "or_default None 10 \<noteq> 0" by (simp add: or_default_def)
  obtain r where r: "getPosts simplest_engine plain_query sample_db = Inr r"
    and d: "resp_data r = [sample_post ''64a000000000000000000001'' ''published'' 1]"
    by (simp add: getPosts_def Let_def countDocuments_def find_posts_def skip_limit_def
        matcher_def build_query_def plain_query_def truthy_def or_default_def or_else_def
        plain_keys_def sample_db_def sample_post_def sort_newest_def)
  obtain r' where r': "getPosts simplest_engine (plain_query\<lparr>q_status := Some ''draft''\<rparr>) sample_db = Inr r'"
    and d': "resp_data r' = [sample_post ''64a000000000000000000002'' ''draft'' 2]"
    by (simp add: getPosts_def Let_def countDocuments_def find_posts_def skip_limit_def
        matcher_def build_query_def plain_query_def truthy_def or_default_def or_else_def
        plain_keys_def sample_db_def sample_post_def sort_newest_def)
  have n: "q_status plain_query = None" by (simp add: plain_query_def)
  have s: "q_status (plain_query\<lparr>q_status := Some ''draft''\<rparr>) = Some ''draft''" by simp
  from getPosts_status_filter [of simplest_engine plain_query sample_db, rule_format, OF r] n
  have 1: "list_all (\<lambda>p. status p = ''published'') (resp_data r)"
    by (simp add: list_all_iff)
  from getPosts_status_filter [of simplest_engine "plain_query\<lparr>q_status := Some ''draft''\<rparr>" sample_db,
      rule_format, OF r'] s
  have 2: "list_all (\<lambda>p. status p = ''draft'') (resp_data r')"
    by (simp add: list_all_iff)
  from r d n 1 r' d' 2 show ?thesis by blast
qed

section \<open>Listing: the search parameter\<close>









end
